theory Spec2Isabelle
  imports Complex_Main
begin

section \<open>The sounding table\<close>

text \<open>
  The notebook \<^verbatim>\<open>Advanced_Sounding.ipynb\<close> loads a sounding into a data frame with the six
  columns of \<^verbatim>\<open>col_names\<close>. A cell of the frame is the missing value NaN, a number, or a
  text that did not read as a number. A row
  is a record of six cells, and a frame is the list of its rows in order, each with its index
  label.
\<close>

datatype cell = NaN | Num real | Text string

fun notna :: "cell \<Rightarrow> bool" where
  "notna NaN = False"
| "notna (Num x) = True"
| "notna (Text s) = True"

record row =
  pressure :: cell
  height :: cell
  temperature :: cell
  dewpoint :: cell
  direction :: cell
  speed :: cell

type_synonym frame = "(nat \<times> row) list"

datatype error = KeyError string | IndexError | LibraryError string

definition col_names :: "string list" where
  "col_names = [''pressure'', ''height'', ''temperature'', ''dewpoint'', ''direction'', ''speed'']"

text \<open>Column lookup by name, \<^verbatim>\<open>df[name]\<close>: a name that is not a column is a KeyError.\<close>

definition getcol :: "string \<Rightarrow> (row \<Rightarrow> cell) option" where
  "getcol name =
     (if name = ''pressure'' then Some pressure
      else if name = ''height'' then Some height
      else if name = ''temperature'' then Some temperature
      else if name = ''dewpoint'' then Some dewpoint
      else if name = ''direction'' then Some direction
      else if name = ''speed'' then Some speed
      else None)"

fun resolve :: "string list \<Rightarrow> error + (row \<Rightarrow> cell) list" where
  "resolve [] = Inr []"
| "resolve (c # cs) =
     (case getcol c of
        None \<Rightarrow> Inl (KeyError c)
      | Some f \<Rightarrow> (case resolve cs of Inl e \<Rightarrow> Inl e | Inr fs \<Rightarrow> Inr (f # fs)))"

section \<open>The filter stage\<close>

text \<open>
  \<^verbatim>\<open>df.dropna(subset=..., how=...)\<close> keeps a row, with its index label, when the cells of the
  subset columns pass the test of \<^verbatim>\<open>how\<close>: with \<^verbatim>\<open>'any'\<close> every one of them is present, with
  \<^verbatim>\<open>'all'\<close> at least one of them is. \<^verbatim>\<open>reset_index(drop=True)\<close> replaces the index labels by
  0, 1, 2, ... and keeps the rows.
\<close>

datatype how = Any | All

definition keep_row :: "how \<Rightarrow> (row \<Rightarrow> cell) list \<Rightarrow> row \<Rightarrow> bool" where
  "keep_row h fs r =
     (case h of
        Any \<Rightarrow> list_all (\<lambda>f. notna (f r)) fs
      | All \<Rightarrow> list_ex (\<lambda>f. notna (f r)) fs)"

definition dropna :: "string list \<Rightarrow> how \<Rightarrow> frame \<Rightarrow> error + frame" where
  "dropna cols h df =
     (case resolve cols of
        Inl e \<Rightarrow> Inl e
      | Inr fs \<Rightarrow> Inr (filter (\<lambda>ir. keep_row h fs (snd ir)) df))"

definition reset_index :: "frame \<Rightarrow> frame" where
  "reset_index df = zip [0..<length df] (map snd df)"

text \<open>
  The second statement of the loading cell:
  \<^verbatim>\<open>df = df.dropna(subset=('temperature', 'dewpoint', 'direction', 'speed'), how='all').reset_index(drop=True)\<close>
\<close>

definition filter_stage :: "frame \<Rightarrow> error + frame" where
  "filter_stage df =
     (case dropna [''temperature'', ''dewpoint'', ''direction'', ''speed''] All df of
        Inl e \<Rightarrow> Inl e
      | Inr d \<Rightarrow> Inr (reset_index d))"

text \<open>The four observation cells of a row are all missing.\<close>

definition all_absent :: "row \<Rightarrow> bool" where
  "all_absent r =
     (temperature r = NaN \<and> dewpoint r = NaN \<and> direction r = NaN \<and> speed r = NaN)"

section \<open>Quantities and the libraries\<close>

text \<open>
  \<^verbatim>\<open>df[name].values * units.x\<close> is the array of a column's cells tagged with a unit; an item
  of it, \<^verbatim>\<open>q[i]\<close>, is one cell with the same unit and an IndexError when the array has no
  position i.
\<close>

type_synonym quantity = "cell list \<times> string"
type_synonym scalar = "cell \<times> string"

definition column_quantity :: "string \<Rightarrow> string \<Rightarrow> frame \<Rightarrow> error + quantity" where
  "column_quantity name un df =
     (case getcol name of
        None \<Rightarrow> Inl (KeyError name)
      | Some f \<Rightarrow> Inr (map (\<lambda>ir. f (snd ir)) df, un))"

definition item :: "quantity \<Rightarrow> nat \<Rightarrow> error + scalar" where
  "item q i = (if i < length (fst q) then Inr (fst q ! i, snd q) else Inl IndexError)"

text \<open>The calls of the plotting cell that draw on the figure, with their arguments.\<close>

datatype drawing =
    AddMetpyLogo nat nat
  | SkewT real
  | Plot quantity quantity string
  | PlotBarbs quantity quantity quantity
  | SetYlim real real
  | SetXlim real real
  | SetXlabel string string
  | SetYlabel string string
  | PlotMarker scalar scalar string string
  | PlotLine quantity quantity string real
  | ShadeCin quantity quantity quantity quantity
  | ShadeCape quantity quantity quantity
  | Axvline real string string real
  | PlotDryAdiabats
  | PlotMoistAdiabats
  | PlotMixingLines
  | Show

text \<open>
  The functions of pandas, MetPy and matplotlib that the notebook calls and that are not part
  of it. The notebook is modelled for every such library: each call returns a result or
  raises, and the figure is a value of a type of the library's choice.
\<close>

record 'f library =
  get_test_data :: "string \<Rightarrow> error + string"
  read_fwf :: "string \<Rightarrow> nat \<Rightarrow> nat list \<Rightarrow> string list \<Rightarrow> error + frame"
  wind_components :: "quantity \<Rightarrow> quantity \<Rightarrow> error + quantity \<times> quantity"
  lcl :: "scalar \<Rightarrow> scalar \<Rightarrow> scalar \<Rightarrow> error + scalar \<times> scalar"
  parcel_profile :: "quantity \<Rightarrow> scalar \<Rightarrow> scalar \<Rightarrow> error + quantity"
  to_units :: "quantity \<Rightarrow> string \<Rightarrow> error + quantity"
  figure :: "real \<times> real \<Rightarrow> error + 'f"
  draw :: "drawing \<Rightarrow> 'f \<Rightarrow> error + 'f"

section \<open>The notebook\<close>

text \<open>
  The notebook has no \<^verbatim>\<open>try\<close>: a statement that raises ends the run with that error, and
  the statements after it are not executed.
\<close>

definition and_then :: "'e + 'a \<Rightarrow> ('a \<Rightarrow> 'e + 'b) \<Rightarrow> 'e + 'b" where
  "and_then r k = (case r of Inl e \<Rightarrow> Inl e | Inr x \<Rightarrow> k x)"

text \<open>The variables \<^verbatim>\<open>p\<close>, \<^verbatim>\<open>T\<close>, \<^verbatim>\<open>Td\<close>, \<^verbatim>\<open>wind_speed\<close> and \<^verbatim>\<open>wind_dir\<close> of the third cell.\<close>

record variables =
  var_p :: quantity
  var_T :: quantity
  var_Td :: quantity
  var_wind_speed :: quantity
  var_wind_dir :: quantity

definition assign_units :: "frame \<Rightarrow> error + variables" where
  "assign_units df =
     and_then (column_quantity ''pressure'' ''hPa'' df) (\<lambda>p.
     and_then (column_quantity ''temperature'' ''degC'' df) (\<lambda>T.
     and_then (column_quantity ''dewpoint'' ''degC'' df) (\<lambda>Td.
     and_then (column_quantity ''speed'' ''knots'' df) (\<lambda>ws.
     and_then (column_quantity ''direction'' ''degrees'' df) (\<lambda>wd.
     Inr \<lparr>var_p = p, var_T = T, var_Td = Td, var_wind_speed = ws, var_wind_dir = wd\<rparr>)))))"

text \<open>\<^verbatim>\<open>lcl_pressure, lcl_temperature = mpcalc.lcl(p[0], T[0], Td[0])\<close>\<close>

definition lcl_stage :: "'f library \<Rightarrow> variables \<Rightarrow> error + scalar \<times> scalar" where
  "lcl_stage L vs =
     and_then (item (var_p vs) 0) (\<lambda>p0.
     and_then (item (var_T vs) 0) (\<lambda>T0.
     and_then (item (var_Td vs) 0) (\<lambda>Td0.
     lcl L p0 T0 Td0)))"

text \<open>\<^verbatim>\<open>prof = mpcalc.parcel_profile(p, T[0], Td[0]).to('degC')\<close>\<close>

definition profile_stage :: "'f library \<Rightarrow> variables \<Rightarrow> error + quantity" where
  "profile_stage L vs =
     and_then (item (var_T vs) 0) (\<lambda>T0.
     and_then (item (var_Td vs) 0) (\<lambda>Td0.
     and_then (parcel_profile L (var_p vs) T0 Td0) (\<lambda>q.
     to_units L q ''degC'')))"

text \<open>
  The steps of a run, in the order of the notebook: the two calls of the loading statement,
  the filter, the assignment of units, the wind components, the new figure, every drawing
  call with its arguments, the LCL statement and the parcel profile statement.
\<close>

datatype step =
    GetTestData
  | ReadFwf
  | DropNa
  | AssignUnits
  | WindComponents
  | Figure
  | Draw drawing
  | Lcl
  | ParcelProfile

text \<open>
  A run is the list of the steps it executed, in order, and its outcome. A step that raises
  is the last one executed and its error is the outcome; a step that returns is followed by
  the rest of the notebook.
\<close>

definition logged ::
  "step \<Rightarrow> error + 'a \<Rightarrow> ('a \<Rightarrow> step list \<times> (error + 'b)) \<Rightarrow> step list \<times> (error + 'b)" where
  "logged st r k =
     (case r of
        Inl e \<Rightarrow> ([st], Inl e)
      | Inr x \<Rightarrow> (st # fst (k x), snd (k x)))"

definition continue ::
  "step list \<times> (error + 'a) \<Rightarrow> ('a \<Rightarrow> step list \<times> (error + 'b)) \<Rightarrow> step list \<times> (error + 'b)" where
  "continue m k =
     (case snd m of
        Inl e \<Rightarrow> (fst m, Inl e)
      | Inr x \<Rightarrow> (fst m @ fst (k x), snd (k x)))"

fun draw_all :: "'f library \<Rightarrow> drawing list \<Rightarrow> 'f \<Rightarrow> step list \<times> (error + 'f)" where
  "draw_all L [] fig = ([], Inr fig)"
| "draw_all L (c # cs) fig = logged (Draw c) (draw L c fig) (draw_all L cs)"

text \<open>The drawing calls of the plotting cell before the LCL statement.\<close>

definition first_drawings :: "variables \<Rightarrow> quantity \<times> quantity \<Rightarrow> drawing list" where
  "first_drawings vs uv =
     [AddMetpyLogo 115 100,
      SkewT 45,
      Plot (var_p vs) (var_T vs) ''r'',
      Plot (var_p vs) (var_Td vs) ''g'',
      PlotBarbs (var_p vs) (fst uv) (snd uv),
      SetYlim 1000 100,
      SetXlim (- 40) 60,
      SetXlabel ''Temperature'' (snd (var_T vs)),
      SetYlabel ''Pressure'' (snd (var_p vs))]"

text \<open>The drawing calls after the parcel profile statement.\<close>

definition last_drawings :: "variables \<Rightarrow> quantity \<Rightarrow> drawing list" where
  "last_drawings vs prof =
     [PlotLine (var_p vs) prof ''k'' 2,
      ShadeCin (var_p vs) (var_T vs) prof (var_Td vs),
      ShadeCape (var_p vs) (var_T vs) prof,
      Axvline 0 ''c'' ''--'' 2,
      PlotDryAdiabats,
      PlotMoistAdiabats,
      PlotMixingLines,
      Show]"

text \<open>
  The four code cells in order:
  \<^verbatim>\<open>df = pd.read_fwf(get_test_data('may4_sounding.txt', as_file_obj=False),\<close>
  \<^verbatim>\<open>                 skiprows=5, usecols=[0, 1, 2, 3, 6, 7], names=col_names)\<close>,
  the filter, the variables with their units,
  \<^verbatim>\<open>u, v = mpcalc.wind_components(wind_speed, wind_dir)\<close>, and the plotting cell.
\<close>

definition run :: "'f library \<Rightarrow> step list \<times> (error + 'f)" where
  "run L =
     logged GetTestData (get_test_data L ''may4_sounding.txt'') (\<lambda>path.
     logged ReadFwf (read_fwf L path 5 [0, 1, 2, 3, 6, 7] col_names) (\<lambda>raw.
     logged DropNa (filter_stage raw) (\<lambda>df.
     logged AssignUnits (assign_units df) (\<lambda>vs.
     logged WindComponents (wind_components L (var_wind_speed vs) (var_wind_dir vs)) (\<lambda>uv.
     logged Figure (figure L (9, 9)) (\<lambda>fig.
     continue (draw_all L (first_drawings vs uv) fig) (\<lambda>fig.
     logged Lcl (lcl_stage L vs) (\<lambda>pt.
     logged (Draw (PlotMarker (fst pt) (snd pt) ''ko'' ''black''))
       (draw L (PlotMarker (fst pt) (snd pt) ''ko'' ''black'') fig) (\<lambda>fig.
     logged ParcelProfile (profile_stage L vs) (\<lambda>prof.
     draw_all L (last_drawings vs prof) fig))))))))))"

text \<open>
  A library for running the notebook on concrete tables: it reads a given table, returns the
  parcel's pressure and dewpoint as the LCL, a constant profile of the parcel's temperature,
  and records the drawing calls in a list. It stands for no property of MetPy.
\<close>

definition table_library :: "frame \<Rightarrow> drawing list library" where
  "table_library tbl =
     \<lparr>get_test_data = (\<lambda>name. Inr name),
      read_fwf = (\<lambda>path skiprows usecols names. Inr tbl),
      wind_components = (\<lambda>ws wd. Inr (ws, wd)),
      lcl = (\<lambda>p0 T0 Td0. Inr (p0, Td0)),
      parcel_profile = (\<lambda>p T0 Td0. Inr (map (\<lambda>c. fst T0) (fst p), snd T0)),
      to_units = (\<lambda>q un. Inr (fst q, un)),
      figure = (\<lambda>size. Inr []),
      draw = (\<lambda>c fig. Inr (fig @ [c]))\<rparr>"

text \<open>Three rows of a sounding: a complete one, one with no observation, one with winds only.\<close>

definition row_full :: row where
  "row_full = \<lparr>pressure = Num 1000, height = Num 110, temperature = Num 20,
                dewpoint = Num 18, direction = Num 180, speed = Num 10\<rparr>"

definition row_empty :: row where
  "row_empty = \<lparr>pressure = Num 925, height = Num 770, temperature = NaN,
                 dewpoint = NaN, direction = NaN, speed = NaN\<rparr>"

definition row_winds :: row where
  "row_winds = \<lparr>pressure = NaN, height = NaN, temperature = NaN,
                 dewpoint = NaN, direction = Num 200, speed = Num 25\<rparr>"

definition row_top :: row where
  "row_top = \<lparr>pressure = Num 250, height = Num 10500, temperature = Num (- 50),
               dewpoint = Num (- 60), direction = Num 270, speed = Num 80\<rparr>"

text \<open>A table whose pressure increases with the index: the top of the sounding comes first.\<close>

definition sample_table :: frame where
  "sample_table = [(0, row_top), (1, row_empty), (2, row_full)]"

text \<open>The variables of the third cell for a table with the given rows.\<close>

definition vars_of_rows :: "row list \<Rightarrow> variables" where
  "vars_of_rows rs =
     \<lparr>var_p = (map pressure rs, ''hPa''),
      var_T = (map temperature rs, ''degC''),
      var_Td = (map dewpoint rs, ''degC''),
      var_wind_speed = (map speed rs, ''knots''),
      var_wind_dir = (map direction rs, ''degrees'')\<rparr>"

text \<open>Overwriting the pressure and the height of a row of a frame, the other cells kept.\<close>

definition set_levels :: "(row \<Rightarrow> cell) \<Rightarrow> (row \<Rightarrow> cell) \<Rightarrow> nat \<times> row \<Rightarrow> nat \<times> row" where
  "set_levels a b ir = (fst ir, (snd ir)\<lparr>pressure := a (snd ir), height := b (snd ir)\<rparr>)"

text \<open>The steps of a run before the figure is created.\<close>

definition loading_steps :: "step list" where
  "loading_steps = [GetTestData, ReadFwf, DropNa, AssignUnits, WindComponents]"

text \<open>
  The drawing calls \<open>cmds\<close>, made in order on the figure \<open>fig\<close>, all return, and
  \<open>figs\<close> is the list of the figures they return, one per call.
\<close>

fun draws_to :: "'f library \<Rightarrow> drawing list \<Rightarrow> 'f \<Rightarrow> 'f list \<Rightarrow> bool" where
  "draws_to L [] fig figs = (figs = [])"
| "draws_to L (c # cs) fig [] = False"
| "draws_to L (c # cs) fig (g # gs) = (draw L c fig = Inr g \<and> draws_to L cs g gs)"

text \<open>The figures of the recording library after each of a list of drawing calls.\<close>

fun figures_after :: "drawing list \<Rightarrow> drawing list \<Rightarrow> drawing list list" where
  "figures_after fig [] = []"
| "figures_after fig (c # cs) = (fig @ [c]) # figures_after (fig @ [c]) cs"

text \<open>
  A library like the one above whose \<^verbatim>\<open>plot\<close> raises a TypeError on a column that holds a
  text, and a table with such a cell: a row whose temperature did not read as a number.
\<close>

definition numeric :: "quantity \<Rightarrow> bool" where
  "numeric q = list_all (\<lambda>c. case c of Text s \<Rightarrow> False | _ \<Rightarrow> True) (fst q)"

fun plottable :: "drawing \<Rightarrow> bool" where
  "plottable (Plot x y fmt) = (numeric x \<and> numeric y)"
| "plottable c = True"

definition strict_library :: "frame \<Rightarrow> drawing list library" where
  "strict_library tbl =
     (table_library tbl)
       \<lparr>draw := \<lambda>c fig. if plottable c then Inr (fig @ [c]) else Inl (LibraryError ''TypeError'')\<rparr>"

definition row_text :: row where
  "row_text = \<lparr>pressure = Num 850, height = Num 1500, temperature = Text ''12.4x'',
                dewpoint = Num 8, direction = Num 210, speed = Num 15\<rparr>"

definition malformed_table :: frame where
  "malformed_table = [(0, row_full), (1, row_text)]"

section \<open>Wind components\<close>

text \<open>
  Modelled from the spec: \<^verbatim>\<open>mpcalc.wind_components\<close> is a function of MetPy and its code is
  not in the repository, which only calls it. The specification gives its formula:
  u = -speed * sin(direction) and v = -speed * cos(direction), with the direction, a compass
  bearing in degrees, converted to radians.
\<close>

definition wind_components_spec :: "real \<Rightarrow> real \<Rightarrow> real \<times> real" where
  "wind_components_spec s d = (- s * sin (d * pi / 180), - s * cos (d * pi / 180))"

section \<open>Properties of the filter stage\<close>

lemma notna_iff: "notna c = (c \<noteq> NaN)"
  by (cases c) simp_all

lemma resolve_subset:
  "resolve [''temperature'', ''dewpoint'', ''direction'', ''speed'']
     = Inr [temperature, dewpoint, direction, speed]"
  by (simp add: getcol_def)

lemma keep_row_subset:
  "keep_row All [temperature, dewpoint, direction, speed] r = (\<not> all_absent r)"
  by (auto simp add: keep_row_def all_absent_def notna_iff)

lemma filter_stage_eq:
  "filter_stage df = Inr (reset_index (filter (\<lambda>ir. \<not> all_absent (snd ir)) df))"
  by (simp add: filter_stage_def dropna_def getcol_def keep_row_subset)

lemma rows_reset_index: "map snd (reset_index df) = map snd df"
  by (simp add: reset_index_def)

lemma labels_reset_index: "map fst (reset_index df) = [0..<length df]"
  by (simp add: reset_index_def)

lemma length_reset_index: "length (reset_index df) = length df"
  by (simp add: reset_index_def)

lemma filter_rows: "map snd (filter (\<lambda>ir. P (snd ir)) df) = filter P (map snd df)"
  by (induction df) simp_all

lemma filter_reset_index:
  "filter (\<lambda>ir. P (snd ir)) (reset_index df) = reset_index df" if "\<forall>r \<in> set (map snd df). P r"
proof -
  have "\<forall>ir \<in> set (reset_index df). P (snd ir)"
  proof
    fix ir assume "ir \<in> set (reset_index df)"
    then have "snd ir \<in> set (map snd (reset_index df))" by simp
    then show "P (snd ir)" using that by (simp only: rows_reset_index)
  qed
  then show ?thesis by (simp add: filter_id_conv)
qed

lemma reset_index_idem: "reset_index (reset_index df) = reset_index df"
  by (simp add: reset_index_def)

lemma all_absent_rows:
  "\<not> all_absent row_full" "all_absent row_empty" "\<not> all_absent row_winds" "\<not> all_absent row_top"
  by (simp_all add: all_absent_def row_full_def row_empty_def row_winds_def row_top_def)

text \<open>
  C1. The filter stage never fails; the rows of its result are the rows of the input that are
  not missing all four of temperature, dewpoint, direction and speed, unchanged and in the
  input's order; and the index labels of the result are 0, 1, ..., one per kept row.
\<close>

theorem filter_stage_keeps_exactly:
  "\<exists>out. filter_stage df = Inr out
       \<and> map snd out = filter (\<lambda>r. \<not> all_absent r) (map snd df)
       \<and> map fst out = [0..<length out]"
  using filter_rows [of "\<lambda>r. \<not> all_absent r" df]
  by (simp add: filter_stage_eq rows_reset_index labels_reset_index length_reset_index)

theorem filter_stage_keeps_exactly_witness:
  "filter_stage [(0, row_full), (1, row_empty), (2, row_winds)] = Inr [(0, row_full), (1, row_winds)]"
  using filter_stage_keeps_exactly [of "[(0, row_full), (1, row_empty), (2, row_winds)]"]
  by (simp add: filter_stage_eq reset_index_def all_absent_rows)

text \<open>
  C8. Filtering is idempotent: running the filter stage on a table and then on its result
  gives what running it once gives.
\<close>

theorem filter_stage_idempotent:
  "and_then (filter_stage df) filter_stage = filter_stage df"
proof -
  let ?kept = "filter (\<lambda>ir. \<not> all_absent (snd ir)) df"
  have "\<forall>r \<in> set (map snd ?kept). \<not> all_absent r" by auto
  then have "filter (\<lambda>ir. \<not> all_absent (snd ir)) (reset_index ?kept) = reset_index ?kept"
    by (rule filter_reset_index)
  then show ?thesis
    by (simp add: and_then_def filter_stage_eq reset_index_idem)
qed

theorem filter_stage_idempotent_witness:
  "filter_stage [(0, row_full), (1, row_empty), (2, row_winds)] = Inr [(0, row_full), (1, row_winds)]
   \<and> filter_stage [(0, row_full), (1, row_winds)] = Inr [(0, row_full), (1, row_winds)]"
  using filter_stage_idempotent [of "[(0, row_full), (1, row_empty), (2, row_winds)]"]
  by (simp add: filter_stage_eq reset_index_def all_absent_rows and_then_def)

lemma all_absent_set_levels: "all_absent (snd (set_levels a b ir)) = all_absent (snd ir)"
  by (simp add: set_levels_def all_absent_def)

lemma filter_set_levels:
  "filter (\<lambda>ir. \<not> all_absent (snd ir)) (map (set_levels a b) df)
     = map (set_levels a b) (filter (\<lambda>ir. \<not> all_absent (snd ir)) df)"
  by (induction df) (simp_all add: all_absent_set_levels)

lemma reset_index_set_levels:
  "reset_index (map (set_levels a b) df) = map (set_levels a b) (reset_index df)"
proof -
  have "map (set_levels a b) (zip ns (map snd df)) = zip ns (map snd (map (set_levels a b) df))"
    if "length ns = length df" for ns
    using that by (induction ns df rule: list_induct2) (simp_all add: set_levels_def)
  then show ?thesis by (simp add: reset_index_def)
qed

text \<open>
  C9. The filter stage looks at temperature, dewpoint, direction and speed only. Every row of
  the input with one of the four present is in the result and every row with all four missing
  is not, whatever its pressure and height are; and overwriting the pressures and heights
  of the input by any values, missing ones included, before the filter gives the same table as
  overwriting them after it: the same rows are kept, with the same index labels.
\<close>

theorem filter_stage_ignores_levels:
  assumes "filter_stage df = Inr out"
  shows "(\<forall>r \<in> set (map snd df). \<not> all_absent r \<longrightarrow> r \<in> set (map snd out))
       \<and> (\<forall>r \<in> set (map snd df). all_absent r \<longrightarrow> r \<notin> set (map snd out))
       \<and> filter_stage (map (set_levels a b) df) = Inr (map (set_levels a b) out)"
proof -
  have out: "out = reset_index (filter (\<lambda>ir. \<not> all_absent (snd ir)) df)"
    using assms by (simp add: filter_stage_eq)
  have rows: "map snd out = filter (\<lambda>r. \<not> all_absent r) (map snd df)"
    using filter_rows [of "\<lambda>r. \<not> all_absent r" df] by (simp add: out rows_reset_index)
  have "filter_stage (map (set_levels a b) df) = Inr (map (set_levels a b) out)"
    by (simp add: filter_stage_eq filter_set_levels reset_index_set_levels out)
  then show ?thesis
    by (simp add: rows)
qed

theorem filter_stage_ignores_levels_witness:
  "filter_stage [(0, row_full), (1, row_empty), (2, row_winds)] = Inr [(0, row_full), (1, row_winds)]
   \<and> pressure row_winds = NaN \<and> height row_winds = NaN
   \<and> row_winds \<in> set (map snd [(0::nat, row_full), (1, row_winds)])
   \<and> pressure row_empty = Num 925 \<and> height row_empty = Num 770
   \<and> row_empty \<notin> set (map snd [(0::nat, row_full), (1, row_winds)])
   \<and> filter_stage
         (map (set_levels (\<lambda>r. NaN) (\<lambda>r. NaN)) [(0, row_full), (1, row_empty), (2, row_winds)])
       = Inr (map (set_levels (\<lambda>r. NaN) (\<lambda>r. NaN)) [(0, row_full), (1, row_winds)])"
proof -
  have f: "filter_stage [(0, row_full), (1, row_empty), (2, row_winds)]
             = Inr [(0, row_full), (1, row_winds)]"
    by (simp add: filter_stage_eq reset_index_def all_absent_rows)
  show ?thesis
    using filter_stage_ignores_levels [OF f, of "\<lambda>r. NaN" "\<lambda>r. NaN"] f
    by (simp add: row_full_def row_empty_def row_winds_def all_absent_def)
qed

section \<open>The lifting parcel\<close>

lemma and_then_simps:
  "and_then (Inl e) k = Inl e"
  "and_then (Inr x) k = k x"
  by (simp_all add: and_then_def)

lemma assign_units_eq:
  "assign_units df =
     Inr \<lparr>var_p = (map (\<lambda>ir. pressure (snd ir)) df, ''hPa''),
          var_T = (map (\<lambda>ir. temperature (snd ir)) df, ''degC''),
          var_Td = (map (\<lambda>ir. dewpoint (snd ir)) df, ''degC''),
          var_wind_speed = (map (\<lambda>ir. speed (snd ir)) df, ''knots''),
          var_wind_dir = (map (\<lambda>ir. direction (snd ir)) df, ''degrees'')\<rparr>"
  by (simp add: assign_units_def column_quantity_def getcol_def and_then_simps)

lemma lcl_stage_Nil:
  "assign_units [] = Inr vs \<Longrightarrow> lcl_stage L vs = Inl IndexError"
  by (auto simp add: assign_units_eq lcl_stage_def item_def and_then_simps)

lemma lcl_stage_Cons:
  "assign_units (ir # rest) = Inr vs \<Longrightarrow>
   lcl_stage L vs =
     lcl L (pressure (snd ir), ''hPa'') (temperature (snd ir), ''degC'')
       (dewpoint (snd ir), ''degC'')"
  by (auto simp add: assign_units_eq lcl_stage_def item_def and_then_simps)

lemma profile_stage_Nil:
  "assign_units [] = Inr vs \<Longrightarrow> profile_stage L vs = Inl IndexError"
  by (auto simp add: assign_units_eq profile_stage_def item_def and_then_simps)

lemma profile_stage_Cons:
  "assign_units (ir # rest) = Inr vs \<Longrightarrow>
   profile_stage L vs =
     and_then
       (parcel_profile L (map (\<lambda>ir. pressure (snd ir)) (ir # rest), ''hPa'')
          (temperature (snd ir), ''degC'') (dewpoint (snd ir), ''degC''))
       (\<lambda>q. to_units L q ''degC'')"
  by (auto simp add: assign_units_eq profile_stage_def item_def and_then_simps)

text \<open>
  C5. For every table, sorted by pressure or not, and every library: when the filtered table
  has a first record, the LCL is the library's \<^verbatim>\<open>lcl\<close> of that record's pressure, temperature
  and dewpoint, and the parcel profile is the library's \<^verbatim>\<open>parcel_profile\<close> of the whole
  pressure column and that record's temperature and dewpoint, converted to degrees Celsius;
  no other record is chosen and nothing is checked. When the filtered table is empty, both
  computations raise the IndexError of \<^verbatim>\<open>p[0]\<close> and \<^verbatim>\<open>T[0]\<close>.
\<close>

theorem parcel_is_first_record:
  assumes "filter_stage raw = Inr df" and "assign_units df = Inr vs"
  shows "case df of
           [] \<Rightarrow> lcl_stage L vs = Inl IndexError \<and> profile_stage L vs = Inl IndexError
         | ir # rest \<Rightarrow>
             lcl_stage L vs =
               lcl L (pressure (snd ir), ''hPa'') (temperature (snd ir), ''degC'')
                 (dewpoint (snd ir), ''degC'')
           \<and> profile_stage L vs =
               and_then
                 (parcel_profile L (map (\<lambda>ir. pressure (snd ir)) df, ''hPa'')
                    (temperature (snd ir), ''degC'') (dewpoint (snd ir), ''degC''))
                 (\<lambda>q. to_units L q ''degC'')"
proof (cases df)
  case Nil
  then show ?thesis
    using assms(2) by (simp add: lcl_stage_Nil profile_stage_Nil)
next
  case (Cons ir rest)
  then show ?thesis
    using assms(2) lcl_stage_Cons [of ir rest vs L] profile_stage_Cons [of ir rest vs L]
    by simp
qed

theorem parcel_is_first_record_witness:
  "filter_stage [(0, row_top), (1, row_empty), (2, row_full)] = Inr [(0, row_top), (1, row_full)]
   \<and> assign_units [(0, row_top), (1, row_full)] = Inr (vars_of_rows [row_top, row_full])
   \<and> lcl_stage (table_library sample_table) (vars_of_rows [row_top, row_full])
       = Inr ((Num 250, ''hPa''), (Num (- 60), ''degC''))
   \<and> profile_stage (table_library sample_table) (vars_of_rows [row_top, row_full])
       = Inr ([Num (- 50), Num (- 50)], ''degC'')"
proof -
  have f: "filter_stage [(0, row_top), (1, row_empty), (2, row_full)]
             = Inr [(0, row_top), (1, row_full)]"
    by (simp add: filter_stage_eq reset_index_def all_absent_rows)
  have a: "assign_units [(0, row_top), (1, row_full)] = Inr (vars_of_rows [row_top, row_full])"
    by (simp add: assign_units_eq vars_of_rows_def)
  show ?thesis
    using parcel_is_first_record [OF f a, of "table_library sample_table"] f a
    by (simp add: table_library_def row_top_def row_full_def and_then_simps)
qed

section \<open>Failures\<close>

lemma logged_simps:
  "logged st (Inl e) k = ([st], Inl e)"
  "logged st (Inr x) k = (st # fst (k x), snd (k x))"
  by (simp_all add: logged_def)

lemma continue_simps:
  "continue (tr, Inl e) k = (tr, Inl e)"
  "continue (tr, Inr x) k = (tr @ fst (k x), snd (k x))"
  by (simp_all add: continue_def)

lemma draw_all_returns:
  "draws_to L cmds fig figs \<Longrightarrow> draw_all L cmds fig = (map Draw cmds, Inr (last (fig # figs)))"
proof (induction cmds arbitrary: fig figs)
  case Nil
  then show ?case by simp
next
  case (Cons c cs)
  then obtain g gs where figs: "figs = g # gs" by (cases figs) simp_all
  with Cons.prems have d: "draw L c fig = Inr g" and r: "draws_to L cs g gs" by simp_all
  from Cons.IH [OF r] d figs show ?case by (simp add: logged_simps)
qed

lemma draw_all_raises:
  "k < length cmds \<Longrightarrow> draws_to L (take k cmds) fig figs \<Longrightarrow>
   draw L (cmds ! k) (last (fig # figs)) = Inl e \<Longrightarrow>
   draw_all L cmds fig = (map Draw (take (Suc k) cmds), Inl e)"
proof (induction cmds arbitrary: k fig figs)
  case Nil
  then show ?case by simp
next
  case (Cons c cs)
  show ?case
  proof (cases k)
    case 0
    with Cons.prems show ?thesis by (simp add: logged_simps)
  next
    case (Suc j)
    with Cons.prems obtain g gs where figs: "figs = g # gs" by (cases figs) simp_all
    with Cons.prems Suc have d: "draw L c fig = Inr g" and r: "draws_to L (take j cs) g gs"
      and j: "j < length cs" and f: "draw L (cs ! j) (last (g # gs)) = Inl e"
      by simp_all
    from Cons.IH [OF j r f] d Suc show ?thesis by (simp add: logged_simps)
  qed
qed

lemma assign_units_rows: "assign_units df = Inr (vars_of_rows (map snd df))"
  by (simp add: assign_units_eq vars_of_rows_def)

lemma filter_then_assign:
  "logged DropNa (filter_stage raw) (\<lambda>df. logged AssignUnits (assign_units df) k)
     = (DropNa # AssignUnits
          # fst (k (vars_of_rows (filter (\<lambda>r. \<not> all_absent r) (map snd raw)))),
        snd (k (vars_of_rows (filter (\<lambda>r. \<not> all_absent r) (map snd raw)))))"
  using filter_rows [of "\<lambda>r. \<not> all_absent r" raw]
  by (simp add: filter_stage_eq assign_units_rows rows_reset_index logged_simps)

lemma lcl_stage_rows:
  "lcl_stage L (vars_of_rows []) = Inl IndexError"
  "lcl_stage L (vars_of_rows (r # rest)) =
     lcl L (pressure r, ''hPa'') (temperature r, ''degC'') (dewpoint r, ''degC'')"
  by (simp_all add: lcl_stage_def vars_of_rows_def item_def and_then_simps)

lemma profile_stage_rows:
  "profile_stage L (vars_of_rows (r # rest)) =
     and_then
       (parcel_profile L (var_p (vars_of_rows (r # rest))) (temperature r, ''degC'')
          (dewpoint r, ''degC''))
       (\<lambda>q. to_units L q ''degC'')"
  by (simp add: profile_stage_def vars_of_rows_def item_def and_then_simps)

lemma run_rows:
  assumes "get_test_data L ''may4_sounding.txt'' = Inr path"
    and "read_fwf L path 5 [0, 1, 2, 3, 6, 7] col_names = Inr raw"
    and "rs = filter (\<lambda>r. \<not> all_absent r) (map snd raw)"
    and "vs = vars_of_rows rs"
  shows "run L =
    (let rest =
       logged WindComponents (wind_components L (var_wind_speed vs) (var_wind_dir vs)) (\<lambda>uv.
       logged Figure (figure L (9, 9)) (\<lambda>fig.
       continue (draw_all L (first_drawings vs uv) fig) (\<lambda>fig.
       logged Lcl (lcl_stage L vs) (\<lambda>pt.
       logged (Draw (PlotMarker (fst pt) (snd pt) ''ko'' ''black''))
         (draw L (PlotMarker (fst pt) (snd pt) ''ko'' ''black'') fig) (\<lambda>fig.
       logged ParcelProfile (profile_stage L vs) (\<lambda>prof.
       draw_all L (last_drawings vs prof) fig))))))
     in (GetTestData # ReadFwf # DropNa # AssignUnits # fst rest, snd rest))"
  unfolding run_def using assms by (simp add: logged_simps filter_then_assign Let_def)

lemma all_absent_row_text: "\<not> all_absent row_text"
  by (simp add: all_absent_def row_text_def)

lemma draws_to_recording:
  "draw L = (\<lambda>c fig. Inr (fig @ [c])) \<Longrightarrow> draws_to L cmds fig (figures_after fig cmds)"
  by (induction cmds arbitrary: fig) simp_all

lemma last_figures_after: "last (fig # figures_after fig cmds) = fig @ cmds"
  by (induction cmds arbitrary: fig) simp_all

lemma draw_table_library: "draw (table_library tbl) = (\<lambda>c fig. Inr (fig @ [c]))"
  by (simp add: table_library_def)

text \<open>
  C10. No failure is recovered from, anywhere in the notebook. For every library, the run is
  determined call by call: when a call raises (the sample file is not found, the reader fails
  on the file, \<^verbatim>\<open>wind_components\<close>, the creation of the figure, any one of the drawing calls,
  \<^verbatim>\<open>lcl\<close>, \<^verbatim>\<open>parcel_profile\<close> or the unit conversion), or when the filtered table is empty and
  \<^verbatim>\<open>p[0]\<close> raises an IndexError, the outcome of the run is that very error and the steps
  executed are exactly the steps of the notebook up to the failing one, each once: the failing
  step is not tried again, no later step is executed, and no chart is returned. A chart is
  returned when every call returned, after every step was executed once, and it is the
  figure returned by the last drawing call, \<^verbatim>\<open>plt.show()\<close>. A malformed row is no exception:
  whichever call it makes raise, the reader or a later one, that failure ends the run.
\<close>

theorem run_stops_at_first_failure:
  "(get_test_data L ''may4_sounding.txt'' = Inl e \<longrightarrow> run L = ([GetTestData], Inl e))
 \<and> (get_test_data L ''may4_sounding.txt'' = Inr path \<longrightarrow>
     (read_fwf L path 5 [0, 1, 2, 3, 6, 7] col_names = Inl e \<longrightarrow>
        run L = ([GetTestData, ReadFwf], Inl e))
   \<and> (read_fwf L path 5 [0, 1, 2, 3, 6, 7] col_names = Inr raw
        \<and> rs = filter (\<lambda>r. \<not> all_absent r) (map snd raw) \<and> vs = vars_of_rows rs \<longrightarrow>
       (wind_components L (var_wind_speed vs) (var_wind_dir vs) = Inl e \<longrightarrow>
          run L = (loading_steps, Inl e))
     \<and> (wind_components L (var_wind_speed vs) (var_wind_dir vs) = Inr uv \<longrightarrow>
         (figure L (9, 9) = Inl e \<longrightarrow> run L = (loading_steps @ [Figure], Inl e))
       \<and> (figure L (9, 9) = Inr f0 \<longrightarrow>
           (k < length (first_drawings vs uv)
              \<and> draws_to L (take k (first_drawings vs uv)) f0 figs
              \<and> draw L (first_drawings vs uv ! k) (last (f0 # figs)) = Inl e \<longrightarrow>
              run L =
                (loading_steps @ Figure # map Draw (take (Suc k) (first_drawings vs uv)),
                 Inl e))
         \<and> (draws_to L (first_drawings vs uv) f0 figs1 \<and> f1 = last (f0 # figs1)
              \<and> before_lcl = loading_steps @ Figure # map Draw (first_drawings vs uv) \<longrightarrow>
             (rs = [] \<longrightarrow> run L = (before_lcl @ [Lcl], Inl IndexError))
           \<and> (rs = r # rest \<longrightarrow>
               (lcl L (pressure r, ''hPa'') (temperature r, ''degC'') (dewpoint r, ''degC'')
                  = Inl e \<longrightarrow>
                  run L = (before_lcl @ [Lcl], Inl e))
             \<and> (lcl L (pressure r, ''hPa'') (temperature r, ''degC'') (dewpoint r, ''degC'')
                  = Inr pt
                  \<and> marker = PlotMarker (fst pt) (snd pt) ''ko'' ''black'' \<longrightarrow>
                 (draw L marker f1 = Inl e \<longrightarrow>
                    run L = (before_lcl @ [Lcl, Draw marker], Inl e))
               \<and> (draw L marker f1 = Inr f2 \<longrightarrow>
                   (parcel_profile L (var_p vs) (temperature r, ''degC'')
                      (dewpoint r, ''degC'') = Inl e \<longrightarrow>
                      run L = (before_lcl @ [Lcl, Draw marker, ParcelProfile], Inl e))
                 \<and> (parcel_profile L (var_p vs) (temperature r, ''degC'')
                      (dewpoint r, ''degC'') = Inr q \<longrightarrow>
                     (to_units L q ''degC'' = Inl e \<longrightarrow>
                        run L = (before_lcl @ [Lcl, Draw marker, ParcelProfile], Inl e))
                   \<and> (to_units L q ''degC'' = Inr prof \<longrightarrow>
                       (k < length (last_drawings vs prof)
                          \<and> draws_to L (take k (last_drawings vs prof)) f2 figs
                          \<and> draw L (last_drawings vs prof ! k) (last (f2 # figs)) = Inl e \<longrightarrow>
                          run L =
                            (before_lcl @ [Lcl, Draw marker, ParcelProfile]
                               @ map Draw (take (Suc k) (last_drawings vs prof)),
                             Inl e))
                     \<and> (draws_to L (last_drawings vs prof) f2 figs2 \<longrightarrow>
                          run L =
                            (before_lcl @ [Lcl, Draw marker, ParcelProfile]
                               @ map Draw (last_drawings vs prof),
                             Inr (last (f2 # figs2))))))))))))))"
  apply (intro conjI impI; (elim conjE)?)
  subgoal by (simp add: run_def logged_simps)
  subgoal by (simp add: run_def logged_simps)
  subgoal
    using run_rows [of L path raw rs vs]
    by (simp add: logged_simps loading_steps_def)
  subgoal
    using run_rows [of L path raw rs vs]
    by (simp add: logged_simps loading_steps_def)
  subgoal
    using run_rows [of L path raw rs vs]
      draw_all_raises [of k "first_drawings vs uv" L f0 figs e]
    by (simp add: logged_simps continue_simps loading_steps_def)
  subgoal
    using run_rows [of L path raw rs vs]
      draw_all_returns [of L "first_drawings vs uv" f0 figs1]
    by (simp add: logged_simps continue_simps loading_steps_def lcl_stage_rows)
  subgoal
    using run_rows [of L path raw rs vs]
      draw_all_returns [of L "first_drawings vs uv" f0 figs1]
    by (simp add: logged_simps continue_simps loading_steps_def lcl_stage_rows)
  subgoal
    using run_rows [of L path raw rs vs]
      draw_all_returns [of L "first_drawings vs uv" f0 figs1]
    by (simp add: logged_simps continue_simps loading_steps_def lcl_stage_rows)
  subgoal
    using run_rows [of L path raw rs vs]
      draw_all_returns [of L "first_drawings vs uv" f0 figs1]
    by (simp add: logged_simps continue_simps loading_steps_def lcl_stage_rows
          profile_stage_rows and_then_simps)
  subgoal
    using run_rows [of L path raw rs vs]
      draw_all_returns [of L "first_drawings vs uv" f0 figs1]
    by (simp add: logged_simps continue_simps loading_steps_def lcl_stage_rows
          profile_stage_rows and_then_simps)
  subgoal
    using run_rows [of L path raw rs vs]
      draw_all_returns [of L "first_drawings vs uv" f0 figs1]
      draw_all_raises [of k "last_drawings vs prof" L f2 figs e]
    by (simp add: logged_simps continue_simps loading_steps_def lcl_stage_rows
          profile_stage_rows and_then_simps)
  subgoal
    using run_rows [of L path raw rs vs]
      draw_all_returns [of L "first_drawings vs uv" f0 figs1]
      draw_all_returns [of L "last_drawings vs prof" f2 figs2]
    by (simp add: logged_simps continue_simps loading_steps_def lcl_stage_rows
          profile_stage_rows and_then_simps)
  done

theorem run_stops_at_first_failure_witness:
  "run ((table_library sample_table)
          \<lparr>get_test_data := \<lambda>name. Inl (LibraryError ''FileNotFoundError'')\<rparr>)
     = ([GetTestData], Inl (LibraryError ''FileNotFoundError''))
 \<and> run (strict_library malformed_table)
     = (loading_steps @ Figure
          # map Draw (take 3 (first_drawings (vars_of_rows [row_full, row_text])
                (var_wind_speed (vars_of_rows [row_full, row_text]),
                 var_wind_dir (vars_of_rows [row_full, row_text])))),
        Inl (LibraryError ''TypeError''))
 \<and> run (table_library [(0, row_empty)])
     = (loading_steps @ Figure
          # map Draw (first_drawings (vars_of_rows [])
                (var_wind_speed (vars_of_rows []), var_wind_dir (vars_of_rows [])))
          @ [Lcl],
        Inl IndexError)
 \<and> run ((table_library sample_table)
          \<lparr>lcl := \<lambda>p0 T0 Td0. Inl (LibraryError ''RuntimeError'')\<rparr>)
     = (loading_steps @ Figure
          # map Draw (first_drawings (vars_of_rows [row_top, row_full])
                (var_wind_speed (vars_of_rows [row_top, row_full]),
                 var_wind_dir (vars_of_rows [row_top, row_full])))
          @ [Lcl],
        Inl (LibraryError ''RuntimeError''))
 \<and> snd (run (table_library sample_table))
     = Inr (first_drawings (vars_of_rows [row_top, row_full])
                (var_wind_speed (vars_of_rows [row_top, row_full]),
                 var_wind_dir (vars_of_rows [row_top, row_full]))
            @ PlotMarker (Num 250, ''hPa'') (Num (- 60), ''degC'') ''ko'' ''black''
            # last_drawings (vars_of_rows [row_top, row_full])
                ([Num (- 50), Num (- 50)], ''degC''))
 \<and> length (fst (run (table_library sample_table))) = 26"
proof -
  let ?L = "table_library sample_table"
  let ?L1 = "?L\<lparr>get_test_data := \<lambda>name. Inl (LibraryError ''FileNotFoundError'')\<rparr>"
  let ?L4 = "?L\<lparr>lcl := \<lambda>p0 T0 Td0. Inl (LibraryError ''RuntimeError'')\<rparr>"
  let ?vs = "vars_of_rows [row_top, row_full]"
  let ?uv = "(var_wind_speed ?vs, var_wind_dir ?vs)"
  let ?vm = "vars_of_rows [row_full, row_text]"
  let ?um = "(var_wind_speed ?vm, var_wind_dir ?vm)"
  let ?v0 = "vars_of_rows []"
  let ?u0 = "(var_wind_speed ?v0, var_wind_dir ?v0)"
  have c1: "run ?L1 = ([GetTestData], Inl (LibraryError ''FileNotFoundError''))"
  proof -
    have h1: "get_test_data ?L1 ''may4_sounding.txt'' = Inl (LibraryError ''FileNotFoundError'')"
      by simp
    show ?thesis
      by (rule run_stops_at_first_failure [where L = ?L1
            and e = "LibraryError ''FileNotFoundError''", THEN conjunct1, THEN mp, OF h1])
  qed
  have c2: "run (strict_library malformed_table)
      = (loading_steps @ Figure # map Draw (take 3 (first_drawings ?vm ?um)),
         Inl (LibraryError ''TypeError''))"
  proof -
    let ?S = "strict_library malformed_table"
    let ?cmds = "first_drawings ?vm ?um"
    let ?figs = "[[AddMetpyLogo 115 100], [AddMetpyLogo 115 100, SkewT 45]]"
    have h1: "get_test_data ?S ''may4_sounding.txt'' = Inr ''may4_sounding.txt''"
      by (simp add: strict_library_def table_library_def)
    have h2: "read_fwf ?S ''may4_sounding.txt'' 5 [0, 1, 2, 3, 6, 7] col_names
                = Inr malformed_table"
      by (simp add: strict_library_def table_library_def)
    have h3: "[row_full, row_text] = filter (\<lambda>r. \<not> all_absent r) (map snd malformed_table)"
      by (simp add: malformed_table_def all_absent_rows all_absent_row_text)
    have h4: "wind_components ?S (var_wind_speed ?vm) (var_wind_dir ?vm) = Inr ?um"
      by (simp add: strict_library_def table_library_def)
    have h5: "figure ?S (9, 9) = Inr []"
      by (simp add: strict_library_def table_library_def)
    have h6: "2 < length ?cmds"
      by (simp add: first_drawings_def)
    have h7: "draws_to ?S (take 2 ?cmds) [] ?figs"
      by (simp add: first_drawings_def strict_library_def table_library_def)
    have h8: "draw ?S (?cmds ! 2) (last ([] # ?figs)) = Inl (LibraryError ''TypeError'')"
      by (simp add: first_drawings_def strict_library_def table_library_def numeric_def
            vars_of_rows_def row_text_def)
    have "run ?S = (loading_steps @ Figure # map Draw (take (Suc 2) ?cmds),
                    Inl (LibraryError ''TypeError''))"
      by (rule run_stops_at_first_failure [where L = ?S
          and e = "LibraryError ''TypeError''" and path = "''may4_sounding.txt''"
          and raw = malformed_table and rs = "[row_full, row_text]" and vs = ?vm and uv = ?um
          and ?f0.0 = "[]" and k = 2 and figs = ?figs,
          THEN conjunct2, THEN mp, OF h1,
          THEN conjunct2, THEN mp, OF conjI [OF h2 conjI [OF h3 refl]],
          THEN conjunct2, THEN mp, OF h4,
          THEN conjunct2, THEN mp, OF h5,
          THEN conjunct1, THEN mp, OF conjI [OF h6 conjI [OF h7 h8]]])
    then show ?thesis by (simp only: Suc_numeral) simp
  qed
  have c3: "run (table_library [(0, row_empty)])
      = (loading_steps @ Figure # map Draw (first_drawings ?v0 ?u0) @ [Lcl], Inl IndexError)"
  proof -
    let ?E = "table_library [(0, row_empty)]"
    let ?cmds = "first_drawings ?v0 ?u0"
    have h1: "get_test_data ?E ''may4_sounding.txt'' = Inr ''may4_sounding.txt''"
      by (simp add: table_library_def)
    have h2: "read_fwf ?E ''may4_sounding.txt'' 5 [0, 1, 2, 3, 6, 7] col_names
                = Inr [(0, row_empty)]"
      by (simp add: table_library_def)
    have h3: "[] = filter (\<lambda>r. \<not> all_absent r) (map snd [(0 :: nat, row_empty)])"
      by (simp add: all_absent_rows)
    have h4: "wind_components ?E (var_wind_speed ?v0) (var_wind_dir ?v0) = Inr ?u0"
      by (simp add: table_library_def)
    have h5: "figure ?E (9, 9) = Inr []"
      by (simp add: table_library_def)
    have h6: "draws_to ?E ?cmds [] (figures_after [] ?cmds)"
      by (rule draws_to_recording) (rule draw_table_library)
    have "run ?E = ((loading_steps @ Figure # map Draw ?cmds) @ [Lcl], Inl IndexError)"
      by (rule run_stops_at_first_failure [where L = ?E and path = "''may4_sounding.txt''"
          and raw = "[(0, row_empty)]" and rs = "[]" and vs = ?v0 and uv = ?u0
          and ?f0.0 = "[]" and ?figs1.0 = "figures_after [] ?cmds"
          and ?f1.0 = "last ([] # figures_after [] ?cmds)"
          and before_lcl = "loading_steps @ Figure # map Draw ?cmds",
          THEN conjunct2, THEN mp, OF h1,
          THEN conjunct2, THEN mp, OF conjI [OF h2 conjI [OF h3 refl]],
          THEN conjunct2, THEN mp, OF h4,
          THEN conjunct2, THEN mp, OF h5,
          THEN conjunct2, THEN mp, OF conjI [OF h6 conjI [OF refl refl]],
          THEN conjunct1, THEN mp, OF refl])
    then show ?thesis by simp
  qed
  have c4: "run ?L4
      = (loading_steps @ Figure # map Draw (first_drawings ?vs ?uv) @ [Lcl],
         Inl (LibraryError ''RuntimeError''))"
  proof -
    let ?cmds = "first_drawings ?vs ?uv"
    have h1: "get_test_data ?L4 ''may4_sounding.txt'' = Inr ''may4_sounding.txt''"
      by (simp add: table_library_def)
    have h2: "read_fwf ?L4 ''may4_sounding.txt'' 5 [0, 1, 2, 3, 6, 7] col_names
                = Inr sample_table"
      by (simp add: table_library_def)
    have h3: "[row_top, row_full] = filter (\<lambda>r. \<not> all_absent r) (map snd sample_table)"
      by (simp add: sample_table_def all_absent_rows)
    have h4: "wind_components ?L4 (var_wind_speed ?vs) (var_wind_dir ?vs) = Inr ?uv"
      by (simp add: table_library_def)
    have h5: "figure ?L4 (9, 9) = Inr []"
      by (simp add: table_library_def)
    have h6: "draws_to ?L4 ?cmds [] (figures_after [] ?cmds)"
      by (rule draws_to_recording) (simp add: table_library_def)
    have h7: "lcl ?L4 (pressure row_top, ''hPa'') (temperature row_top, ''degC'')
                (dewpoint row_top, ''degC'') = Inl (LibraryError ''RuntimeError'')"
      by simp
    have "run ?L4 = ((loading_steps @ Figure # map Draw ?cmds) @ [Lcl],
                     Inl (LibraryError ''RuntimeError''))"
      by (rule run_stops_at_first_failure [where L = ?L4 and path = "''may4_sounding.txt''"
          and e = "LibraryError ''RuntimeError''"
          and raw = sample_table and rs = "[row_top, row_full]" and vs = ?vs and uv = ?uv
          and ?f0.0 = "[]" and ?figs1.0 = "figures_after [] ?cmds"
          and ?f1.0 = "last ([] # figures_after [] ?cmds)"
          and before_lcl = "loading_steps @ Figure # map Draw ?cmds"
          and r = row_top and rest = "[row_full]",
          THEN conjunct2, THEN mp, OF h1,
          THEN conjunct2, THEN mp, OF conjI [OF h2 conjI [OF h3 refl]],
          THEN conjunct2, THEN mp, OF h4,
          THEN conjunct2, THEN mp, OF h5,
          THEN conjunct2, THEN mp, OF conjI [OF h6 conjI [OF refl refl]],
          THEN conjunct2, THEN mp, OF refl,
          THEN conjunct1, THEN mp, OF h7])
    then show ?thesis by simp
  qed
  have c5: "run ?L
      = (loading_steps @ Figure # map Draw (first_drawings ?vs ?uv)
           @ [Lcl, Draw (PlotMarker (Num 250, ''hPa'') (Num (- 60), ''degC'') ''ko'' ''black''),
              ParcelProfile]
           @ map Draw (last_drawings ?vs ([Num (- 50), Num (- 50)], ''degC'')),
         Inr (first_drawings ?vs ?uv
            @ PlotMarker (Num 250, ''hPa'') (Num (- 60), ''degC'') ''ko'' ''black''
            # last_drawings ?vs ([Num (- 50), Num (- 50)], ''degC'')))"
  proof -
    let ?cmds = "first_drawings ?vs ?uv"
    let ?pt = "((Num 250, ''hPa''), (Num (- 60), ''degC''))"
    let ?m = "PlotMarker (Num 250, ''hPa'') (Num (- 60), ''degC'') ''ko'' ''black''"
    let ?prof = "([Num (- 50), Num (- 50)], ''degC'')"
    let ?cmds2 = "last_drawings ?vs ?prof"
    let ?f2 = "?cmds @ [?m]"
    have h1: "get_test_data ?L ''may4_sounding.txt'' = Inr ''may4_sounding.txt''"
      by (simp add: table_library_def)
    have h2: "read_fwf ?L ''may4_sounding.txt'' 5 [0, 1, 2, 3, 6, 7] col_names
                = Inr sample_table"
      by (simp add: table_library_def)
    have h3: "[row_top, row_full] = filter (\<lambda>r. \<not> all_absent r) (map snd sample_table)"
      by (simp add: sample_table_def all_absent_rows)
    have h4: "wind_components ?L (var_wind_speed ?vs) (var_wind_dir ?vs) = Inr ?uv"
      by (simp add: table_library_def)
    have h5: "figure ?L (9, 9) = Inr []"
      by (simp add: table_library_def)
    have h6: "draws_to ?L ?cmds [] (figures_after [] ?cmds)"
      by (rule draws_to_recording) (rule draw_table_library)
    have h6': "?cmds = last ([] # figures_after [] ?cmds)"
      by (simp only: last_figures_after append_Nil)
    have h7: "lcl ?L (pressure row_top, ''hPa'') (temperature row_top, ''degC'')
                (dewpoint row_top, ''degC'') = Inr ?pt"
      by (simp add: table_library_def row_top_def)
    have h8: "?m = PlotMarker (fst ?pt) (snd ?pt) ''ko'' ''black''"
      by simp
    have h9: "draw ?L ?m ?cmds = Inr ?f2"
      by (simp add: table_library_def)
    have h10: "parcel_profile ?L (var_p ?vs) (temperature row_top, ''degC'')
                 (dewpoint row_top, ''degC'') = Inr ?prof"
      by (simp add: table_library_def vars_of_rows_def row_top_def)
    have h11: "to_units ?L ?prof ''degC'' = Inr ?prof"
      by (simp add: table_library_def)
    have h12: "draws_to ?L ?cmds2 ?f2 (figures_after ?f2 ?cmds2)"
      by (rule draws_to_recording) (rule draw_table_library)
    have "run ?L
      = ((loading_steps @ Figure # map Draw ?cmds) @ [Lcl, Draw ?m, ParcelProfile]
           @ map Draw ?cmds2,
         Inr (last (?f2 # figures_after ?f2 ?cmds2)))"
      by (rule run_stops_at_first_failure [where L = ?L and path = "''may4_sounding.txt''"
          and raw = sample_table and rs = "[row_top, row_full]" and vs = ?vs and uv = ?uv
          and ?f0.0 = "[]" and ?figs1.0 = "figures_after [] ?cmds"
          and ?f1.0 = ?cmds
          and before_lcl = "loading_steps @ Figure # map Draw ?cmds"
          and r = row_top and rest = "[row_full]" and pt = ?pt and marker = ?m
          and ?f2.0 = ?f2 and q = ?prof and prof = ?prof
          and ?figs2.0 = "figures_after ?f2 ?cmds2",
          THEN conjunct2, THEN mp, OF h1,
          THEN conjunct2, THEN mp, OF conjI [OF h2 conjI [OF h3 refl]],
          THEN conjunct2, THEN mp, OF h4,
          THEN conjunct2, THEN mp, OF h5,
          THEN conjunct2, THEN mp, OF conjI [OF h6 conjI [OF h6' refl]],
          THEN conjunct2, THEN mp, OF refl,
          THEN conjunct2, THEN mp, OF conjI [OF h7 h8],
          THEN conjunct2, THEN mp, OF h9,
          THEN conjunct2, THEN mp, OF h10,
          THEN conjunct2, THEN mp, OF h11,
          THEN conjunct2, THEN mp, OF h12])
    then show ?thesis
      by (simp only: last_figures_after append_assoc append_Cons append_Nil)
  qed
  have c6: "length (fst (run ?L)) = 26"
    by (simp only: c5 fst_conv) (simp add: loading_steps_def first_drawings_def last_drawings_def)
  have c5': "snd (run ?L) = Inr (first_drawings ?vs ?uv
            @ PlotMarker (Num 250, ''hPa'') (Num (- 60), ''degC'') ''ko'' ''black''
            # last_drawings ?vs ([Num (- 50), Num (- 50)], ''degC''))"
    by (simp only: c5 snd_conv)
  show ?thesis
    by (intro conjI) (rule c1, rule c2, rule c3, rule c4, rule c5', rule c6)
qed

section \<open>The round trip of wind components\<close>

lemma wind_speed_recovered:
  "0 \<le> s \<Longrightarrow>
   sqrt ((fst (wind_components_spec s d))\<^sup>2 + (snd (wind_components_spec s d))\<^sup>2) = s"
proof -
  assume s: "0 \<le> s"
  let ?a = "d * pi / 180"
  have "(- s * sin ?a)\<^sup>2 + (- s * cos ?a)\<^sup>2 = (s * sin ?a)\<^sup>2 + (s * cos ?a)\<^sup>2"
    by simp
  also have "\<dots> = s\<^sup>2 * ((sin ?a)\<^sup>2 + (cos ?a)\<^sup>2)"
    by (simp only: power_mult_distrib distrib_left)
  also have "\<dots> = s\<^sup>2" by simp
  finally have "sqrt ((- s * sin ?a)\<^sup>2 + (- s * cos ?a)\<^sup>2) = s" using s by simp
  then show ?thesis by (simp only: wind_components_spec_def fst_conv snd_conv)
qed

lemma wind_components_inj:
  assumes "0 < s" "0 < s'" "\<bar>d - d'\<bar> < 360"
    and eq: "wind_components_spec s d = wind_components_spec s' d'"
  shows "s = s' \<and> d = d'"
proof -
  have "s = sqrt ((fst (wind_components_spec s d))\<^sup>2 + (snd (wind_components_spec s d))\<^sup>2)"
    using assms(1) by (simp add: wind_speed_recovered)
  also have "\<dots> = s'"
    using assms(2) by (simp add: eq wind_speed_recovered)
  finally have ss: "s = s'" .
  let ?a = "d * pi / 180" and ?b = "d' * pi / 180"
  from eq ss assms(1) have "sin ?a = sin ?b \<and> cos ?a = cos ?b"
    by (simp add: wind_components_spec_def)
  then obtain n :: int where n: "?a = ?b + 2 * pi * n"
    using sin_cos_eq_iff [of ?a ?b] by blast
  then have "(d - d') * pi = 360 * real_of_int n * pi"
    by (simp add: algebra_simps)
  then have dn: "d - d' = 360 * real_of_int n" by simp
  with assms(3) have "\<bar>real_of_int n\<bar> < 1" by (simp add: abs_mult)
  then have "n = 0" by linarith
  with dn ss show ?thesis by simp
qed

text \<open>
  C7. With the formula of the specification and exact arithmetic, a wind record round-trips
  through its components under two conditions. The speed of every record with a speed of at
  least 0 is recovered exactly, as the length of (u, v). Two records with positive speeds and
  directions less than 360 degrees apart that have the same components are the same record;
  so there is an inverse conversion that returns the speed and the direction of every record
  with a positive speed and a direction from 0 up to, but excluding, 360 degrees.
\<close>

theorem wind_round_trip_exact:
  "(0 \<le> s \<longrightarrow>
      sqrt ((fst (wind_components_spec s d))\<^sup>2 + (snd (wind_components_spec s d))\<^sup>2) = s)
 \<and> (0 < s \<and> 0 < s' \<and> \<bar>d - d'\<bar> < 360
      \<and> wind_components_spec s d = wind_components_spec s' d' \<longrightarrow> s = s' \<and> d = d')
 \<and> (\<exists>recover. \<forall>s d. 0 < s \<and> 0 \<le> d \<and> d < 360 \<longrightarrow> recover (wind_components_spec s d) = (s, d))"
proof (intro conjI impI)
  assume "0 \<le> s"
  then show "sqrt ((fst (wind_components_spec s d))\<^sup>2 + (snd (wind_components_spec s d))\<^sup>2) = s"
    by (rule wind_speed_recovered)
next
  assume "0 < s \<and> 0 < s' \<and> \<bar>d - d'\<bar> < 360
      \<and> wind_components_spec s d = wind_components_spec s' d'"
  then show "s = s'" "d = d'" using wind_components_inj [of s s' d d'] by simp_all
next
  let ?D = "{sd :: real \<times> real. 0 < fst sd \<and> 0 \<le> snd sd \<and> snd sd < 360}"
  let ?f = "\<lambda>sd :: real \<times> real. wind_components_spec (fst sd) (snd sd)"
  have inj: "inj_on ?f ?D"
  proof (rule inj_onI)
    fix x y assume x: "x \<in> ?D" and y: "y \<in> ?D" and e: "?f x = ?f y"
    from x y have "\<bar>snd x - snd y\<bar> < 360" by auto
    with x y e have "fst x = fst y \<and> snd x = snd y"
      using wind_components_inj [of "fst x" "fst y" "snd x" "snd y"] by simp
    then show "x = y" by (simp add: prod_eq_iff)
  qed
  have "\<forall>s d. 0 < s \<and> 0 \<le> d \<and> d < 360 \<longrightarrow> inv_into ?D ?f (wind_components_spec s d) = (s, d)"
  proof (intro allI impI)
    fix s d :: real assume "0 < s \<and> 0 \<le> d \<and> d < 360"
    then have "(s, d) \<in> ?D" by simp
    then have "inv_into ?D ?f (?f (s, d)) = (s, d)" using inj by (rule inv_into_f_f [rotated])
    then show "inv_into ?D ?f (wind_components_spec s d) = (s, d)" by simp
  qed
  then show "\<exists>recover. \<forall>s d. 0 < s \<and> 0 \<le> d \<and> d < 360 \<longrightarrow> recover (wind_components_spec s d) = (s, d)"
    by blast
qed

theorem wind_round_trip_exact_witness:
  "sqrt ((fst (wind_components_spec 10 90))\<^sup>2 + (snd (wind_components_spec 10 90))\<^sup>2) = 10
 \<and> wind_components_spec 10 90 = (- 10, 0)
 \<and> (\<exists>recover. recover (wind_components_spec 10 90) = (10 :: real, 90 :: real)
          \<and> recover (wind_components_spec 25 200) = (25 :: real, 200 :: real))"
proof -
  have v: "wind_components_spec 10 90 = (- 10, 0)"
    by (simp add: wind_components_spec_def)
  from wind_round_trip_exact [of 10 90 10 90]
  have "sqrt ((fst (wind_components_spec 10 90))\<^sup>2 + (snd (wind_components_spec 10 90))\<^sup>2) = 10"
    and "\<exists>recover. \<forall>s d. 0 < s \<and> 0 \<le> d \<and> d < 360 \<longrightarrow> recover (wind_components_spec s d) = (s, d)"
    by simp_all
  then obtain recover where
    s: "sqrt ((fst (wind_components_spec 10 90))\<^sup>2 + (snd (wind_components_spec 10 90))\<^sup>2) = 10"
    and b: "\<And>s d. 0 < s \<and> 0 \<le> d \<and> d < 360 \<Longrightarrow> recover (wind_components_spec s d) = (s, d)"
    by blast
  have "recover (wind_components_spec 10 90) = (10 :: real, 90 :: real)" by (rule b) simp
  moreover have "recover (wind_components_spec 25 200) = (25 :: real, 200 :: real)" by (rule b) simp
  ultimately have ex: "\<exists>recover. recover (wind_components_spec 10 90) = (10 :: real, 90 :: real)
          \<and> recover (wind_components_spec 25 200) = (25 :: real, 200 :: real)" by blast
  show ?thesis by (intro conjI) (rule s, rule v, rule ex)
qed

text \<open>
  C7, as stated for all wind records, fails on calm winds: a record with speed 0 has the
  components (0, 0) whatever its direction, so the records (0, 90) and (0, 180) have the same
  components and no inverse conversion returns both directions, not even within one degree.
  The directions 0 and 360 degrees give the same components too, at any speed.
\<close>

theorem wind_round_trip_calm_counterexample:
  "wind_components_spec 0 90 = wind_components_spec 0 180
   \<and> wind_components_spec 10 0 = wind_components_spec 10 360
   \<and> \<not> (\<exists>recover. \<forall>s d. \<bar>fst (recover (wind_components_spec s d)) - s\<bar> \<le> 1
                       \<and> \<bar>snd (recover (wind_components_spec s d)) - d\<bar> \<le> 1)"
proof (intro conjI)
  show c: "wind_components_spec 0 90 = wind_components_spec 0 180"
    by (simp add: wind_components_spec_def)
  show "wind_components_spec 10 0 = wind_components_spec 10 360"
    by (simp add: wind_components_spec_def)
  show "\<not> (\<exists>recover. \<forall>s d. \<bar>fst (recover (wind_components_spec s d)) - s\<bar> \<le> 1
                       \<and> \<bar>snd (recover (wind_components_spec s d)) - d\<bar> \<le> 1)"
  proof
    assume "\<exists>recover. \<forall>s d. \<bar>fst (recover (wind_components_spec s d)) - s\<bar> \<le> 1
                       \<and> \<bar>snd (recover (wind_components_spec s d)) - d\<bar> \<le> 1"
    then obtain recover :: "real \<times> real \<Rightarrow> real \<times> real" where
      b: "\<And>s d. \<bar>snd (recover (wind_components_spec s d)) - d\<bar> \<le> 1" by blast
    from b [of 0 90] b [of 0 180] c show False by simp
  qed
qed

end
